theory Spec2Isabelle
  imports Complex_Main
begin

section \<open>Python text primitives used by the extractor\<close>

text \<open>
  Python \<open>str\<close> values are modelled as \<open>string\<close>. The helpers below are the
  few built-in operations the extractor applies to text: decimal rendering of an
  integer inside an f-string, \<open>str.lower\<close>, the \<open>in\<close> operator on strings and
  slicing from the start (\<open>s[:n]\<close>, which is \<open>take n s\<close>).
\<close>

definition digit_char :: "nat \<Rightarrow> char" where
  "digit_char d = ''0123456789'' ! d"

fun show_nat :: "nat \<Rightarrow> string" where
  "show_nat n =
     (if n < 10 then [digit_char n] else show_nat (n div 10) @ [digit_char (n mod 10)])"

declare show_nat.simps [simp del]

definition show_int :: "int \<Rightarrow> string" where
  "show_int i = (if i < 0 then CHR ''-'' # show_nat (nat (- i)) else show_nat (nat i))"

definition lower_char :: "char \<Rightarrow> char" where
  \<comment> \<open>\<open>str.lower\<close> on the ASCII letters; every other character is kept.\<close>
  "lower_char c =
     (case map_of (zip ''ABCDEFGHIJKLMNOPQRSTUVWXYZ'' ''abcdefghijklmnopqrstuvwxyz'') c of
        Some l \<Rightarrow> l
      | None \<Rightarrow> c)"

definition lower :: "string \<Rightarrow> string" where
  "lower s = map lower_char s"

definition starts_with :: "string \<Rightarrow> string \<Rightarrow> bool" where
  "starts_with sub s = (take (length sub) s = sub)"

fun py_in :: "string \<Rightarrow> string \<Rightarrow> bool" where
  \<comment> \<open>\<open>sub in s\<close>: \<open>sub\<close> occurs in \<open>s\<close> as a contiguous run.\<close>
  "py_in sub [] = (sub = [])"
| "py_in sub (c # cs) = (starts_with sub (c # cs) \<or> py_in sub cs)"

definition truthy :: "string option \<Rightarrow> bool" where
  \<comment> \<open>Truth value of an \<open>Optional[str]\<close>: \<open>None\<close> and the empty string are false.\<close>
  "truthy k = (case k of None \<Rightarrow> False | Some s \<Rightarrow> s \<noteq> [])"

text \<open>
  Exceptions are values: \<open>Exc c m\<close> is an instance of the \<open>Exception\<close> subclass
  named \<open>c\<close> whose \<open>str(e)\<close> is \<open>m\<close>. The extractor's own code raises only
  \<open>ValueError\<close>; the libraries it calls may raise any other class. Signals outside
  \<open>Exception\<close> (\<open>KeyboardInterrupt\<close>, \<open>SystemExit\<close> raised by a library), which no
  \<open>except Exception\<close> clause catches, are not part of the model.
\<close>

datatype exn = Exc string string

definition ValueError :: "string \<Rightarrow> exn" where
  "ValueError m = Exc ''ValueError'' m"

fun str_exn :: "exn \<Rightarrow> string" where
  "str_exn (Exc c m) = m"


section \<open>config.py: settings and the preferred model\<close>

record Settings =
  openai_api_key :: "string option"
  openai_model :: string
  gemini_api_key :: "string option"
  gemini_model :: string
  anthropic_api_key :: "string option"
  anthropic_model :: string
  supported_formats :: "string list"
  max_file_size_mb :: int

definition default_settings :: Settings where
  \<comment> \<open>The field defaults of \<open>Settings\<close>, as obtained when no variable is set.\<close>
  "default_settings =
     \<lparr> openai_api_key = None, openai_model = ''gpt-4o'',
       gemini_api_key = None, gemini_model = ''gemini-2.0-flash-exp'',
       anthropic_api_key = None, anthropic_model = ''claude-3-5-sonnet-20241022'',
       supported_formats = [''pdf'', ''png'', ''jpg'', ''jpeg''],
       max_file_size_mb = 10 \<rparr>"

definition has_ai_provider :: "Settings \<Rightarrow> bool" where
  "has_ai_provider s =
     (truthy (openai_api_key s) \<or> truthy (gemini_api_key s) \<or> truthy (anthropic_api_key s))"

definition get_preferred_model :: "Settings \<Rightarrow> exn + (string \<times> string)" where
  "get_preferred_model s =
     (if truthy (openai_api_key s) then Inr (openai_model s, the (openai_api_key s))
      else if truthy (gemini_api_key s) then Inr (gemini_model s, the (gemini_api_key s))
      else if truthy (anthropic_api_key s) then
        Inr (anthropic_model s, the (anthropic_api_key s))
      else Inl (ValueError ''No AI provider configured''))"


section \<open>models.py: the invoice record and the result envelope\<close>

text \<open>
  A \<open>Decimal\<close> is a coefficient with a base-ten exponent, a date is year, month and
  day. Every \<open>Optional\<close> field is an \<open>option\<close>; \<open>line_items\<close> is declared
  \<open>List[LineItem]\<close> with default \<open>[]\<close> and is a list. A pydantic model built
  with keyword arguments is the record of field defaults updated at those fields.
\<close>

type_synonym Decimal = "int \<times> int"
type_synonym py_date = "nat \<times> nat \<times> nat"

record Address =
  street :: "string option"
  city :: "string option"
  state :: "string option"
  zip_code :: "string option"
  country :: "string option"

record Entity =
  name :: "string option"
  address :: "Address option"
  tax_id :: "string option"
  email :: "string option"
  phone :: "string option"

record LineItem =
  description :: "string option"
  quantity :: "Decimal option"
  unit_price :: "Decimal option"
  line_total :: "Decimal option"
  tax_rate :: "Decimal option"

record Totals =
  subtotal :: "Decimal option"
  tax :: "Decimal option"
  total :: "Decimal option"
  currency :: string

record InvoiceData =
  invoice_number :: "string option"
  date :: "py_date option"
  due_date :: "py_date option"
  vendor :: "Entity option"
  customer :: "Entity option"
  totals :: "Totals option"
  line_items :: "LineItem list"
  "notes" :: "string option"
  payment_terms :: "string option"

record ProcessingResult =
  success :: bool
  invoice_data :: "InvoiceData option"
  error_message :: "string option"
  processing_time :: "real option"
  confidence_score :: "real option"

definition InvoiceData_default :: InvoiceData where
  "InvoiceData_default =
     \<lparr> invoice_number = None, date = None, due_date = None, vendor = None,
       customer = None, totals = None, line_items = [], notes = None,
       payment_terms = None \<rparr>"

definition ProcessingResult_new :: "bool \<Rightarrow> ProcessingResult" where
  \<comment> \<open>\<open>ProcessingResult(success=b)\<close>: \<open>success\<close> is required, the rest defaults to \<open>None\<close>.\<close>
  "ProcessingResult_new b =
     \<lparr> success = b, invoice_data = None, error_message = None,
       processing_time = None, confidence_score = None \<rparr>"


section \<open>validators.py: the three validation stages\<close>

text \<open>
  The validator observes the file system through three library calls, each a parameter
  of the model. \<open>Path(p).exists()\<close> answers or raises (an \<open>OSError\<close> for a name
  that is too long, for instance). \<open>os.path.getsize(p)\<close> returns the byte length or
  raises (\<open>FileNotFoundError\<close> when nothing is there). \<open>magic.from_file\<close> returns
  the sniffed MIME type or raises. Nothing relates the answers of the first two:
  \<open>Path('')\<close> is the current directory, which exists, while
  \<open>os.path.getsize('')\<close> raises.
\<close>

record filesystem =
  path_exists :: "string \<Rightarrow> exn + bool"
  getsize :: "string \<Rightarrow> exn + nat"

type_synonym sniffer = "string \<Rightarrow> exn + string"

text \<open>
  The size message renders \<open>file_size / 1024 / 1024\<close> with the format \<open>.1f\<close>. The
  quotient of two integers is the nearest binary64 number, ties to even; dividing by a
  power of two is then exact, so the number rendered is \<open>to_float file_size / 2^20\<close>,
  where \<open>to_float n\<close> is \<open>n\<close> rounded to 53 significant bits. The format \<open>.1f\<close>
  prints the nearest multiple of one tenth, ties to even again. Sizes at which binary64
  overflows (from \<open>2^1034\<close> bytes on) are beyond any \<open>st_size\<close> and are not
  distinguished.
\<close>

fun bit_length :: "nat \<Rightarrow> nat" where
  "bit_length n = (if n = 0 then 0 else Suc (bit_length (n div 2)))"

declare bit_length.simps [simp del]

definition round_half_even_div :: "nat \<Rightarrow> nat \<Rightarrow> nat" where
  \<comment> \<open>The integer nearest to \<open>a / b\<close>, the even one when two are equally near.\<close>
  "round_half_even_div a b =
     (let q = a div b; r = a mod b
      in if b < 2 * r \<or> (2 * r = b \<and> odd q) then q + 1 else q)"

definition to_float :: "nat \<Rightarrow> nat" where
  "to_float n =
     (if n < 2 ^ 53 then n
      else let s = bit_length n - 53 in round_half_even_div n (2 ^ s) * 2 ^ s)"

definition format_mb :: "nat \<Rightarrow> string" where
  \<comment> \<open>\<open>f"{file_size / 1024 / 1024:.1f}"\<close>\<close>
  "format_mb file_size =
     (let tenths = round_half_even_div (to_float file_size * 10) (2 ^ 20)
      in show_nat (tenths div 10) @ ''.'' @ show_nat (tenths mod 10))"

definition validate_file_exists :: "filesystem \<Rightarrow> string \<Rightarrow> exn + bool" where
  "validate_file_exists fs file_path = path_exists fs file_path"

definition validate_file_size ::
  "Settings \<Rightarrow> filesystem \<Rightarrow> string \<Rightarrow> exn + (bool \<times> string)" where
  "validate_file_size settings fs file_path =
     (case getsize fs file_path of
        Inl e \<Rightarrow> Inl e
      | Inr file_size \<Rightarrow>
          (let max_size = max_file_size_mb settings * 1024 * 1024
           in if int file_size > max_size then
                Inr (False, ''File size ('' @ format_mb file_size @ ''MB) exceeds limit (''
                            @ show_int (max_file_size_mb settings) @ ''MB)'')
              else Inr (True, [])))"

definition supported_mime_types :: "(string \<times> string) list" where
  "supported_mime_types =
     [(''application/pdf'', ''pdf''),
      (''image/png'', ''png''),
      (''image/jpeg'', ''jpg''),
      (''image/jpg'', ''jpg'')]"

definition validate_file_format :: "Settings \<Rightarrow> sniffer \<Rightarrow> string \<Rightarrow> bool \<times> string" where
  "validate_file_format settings magic_from_file file_path =
     (case magic_from_file file_path of
        Inl e \<Rightarrow> (False, ''Error detecting file type: '' @ str_exn e)
      | Inr mime_type \<Rightarrow>
          (case map_of supported_mime_types mime_type of
             None \<Rightarrow> (False, ''Unsupported file type: '' @ mime_type)
           | Some detected_format \<Rightarrow>
               if detected_format \<notin> set (supported_formats settings) then
                 (False, ''Format '' @ detected_format @ '' not supported'')
               else (True, detected_format)))"

definition validate_invoice_file ::
  "Settings \<Rightarrow> filesystem \<Rightarrow> sniffer \<Rightarrow> string \<Rightarrow> exn + (bool \<times> string)" where
  \<comment> \<open>An exception raised by the existence or the size stage is not caught here.\<close>
  "validate_invoice_file settings fs magic_from_file file_path =
     (case validate_file_exists fs file_path of
        Inl e \<Rightarrow> Inl e
      | Inr found \<Rightarrow>
          if \<not> found then Inr (False, ''File not found: '' @ file_path)
          else
            case validate_file_size settings fs file_path of
              Inl e \<Rightarrow> Inl e
            | Inr (size_valid, size_error) \<Rightarrow>
                if \<not> size_valid then Inr (False, size_error)
                else
                  (case validate_file_format settings magic_from_file file_path of
                     (format_valid, format_result) \<Rightarrow>
                       if \<not> format_valid then Inr (False, format_result)
                       else Inr (True, ''Valid '' @ format_result @ '' file'')))"


section \<open>processor.py: the invoice processor\<close>

text \<open>
  \<open>os.environ\<close> is a map from variable names to values. The processor keeps the
  model identifier and the credential chosen by the settings.
\<close>

type_synonym environ = "string \<rightharpoonup> string"

record InvoiceProcessor =
  model :: string
  api_key :: string

definition setup_environment :: "InvoiceProcessor \<Rightarrow> environ \<Rightarrow> environ" where
  "setup_environment self env =
     (if py_in ''gpt'' (lower (model self)) then env(''OPENAI_API_KEY'' \<mapsto> api_key self)
      else if py_in ''gemini'' (lower (model self)) then
        env(''GEMINI_API_KEY'' \<mapsto> api_key self)
      else if py_in ''claude'' (lower (model self)) then
        env(''ANTHROPIC_API_KEY'' \<mapsto> api_key self)
      else env)"

definition InvoiceProcessor_init ::
  "Settings \<Rightarrow> environ \<Rightarrow> exn + (InvoiceProcessor \<times> environ)" where
  \<comment> \<open>\<open>InvoiceProcessor()\<close>: the new processor and the environment it leaves behind.\<close>
  "InvoiceProcessor_init settings env =
     (if \<not> has_ai_provider settings then
        Inl (ValueError ''No AI provider configured. Please set API keys in .env file.'')
      else
        case get_preferred_model settings of
          Inl e \<Rightarrow> Inl e
        | Inr (m, k) \<Rightarrow>
            (let self = \<lparr> model = m, api_key = k \<rparr>
             in Inr (self, setup_environment self env)))"

text \<open>
  The call to \<open>zerox\<close> is the one external step. Its keyword arguments are recorded
  as they are passed; its reply is either an exception or an object, of which the
  processor observes the truth value, the \<open>content\<close> attribute when there is one, and
  \<open>str(result)\<close>.
\<close>

record zerox_args =
  arg_file_path :: string
  arg_model :: string
  arg_cleanup :: bool
  arg_custom_system_prompt :: string
  arg_maintain_format :: bool
  arg_temperature :: real

record zerox_result =
  result_truthy :: bool
  result_content :: "string option"
  result_str :: string

type_synonym backend = "environ \<Rightarrow> zerox_args \<Rightarrow> exn + zerox_result"

definition system_prompt :: string where
  "system_prompt =
     concat (map (\<lambda>l. CHR 0x0A # replicate 12 CHR '' '' @ l)
       [''You are an expert invoice data extraction system. '',
        ''Extract structured data from the provided invoice document.'',
        [],
        ''Please extract the following information:'',
        ''- Invoice number'',
        ''- Date and due date'',
        ''- Vendor/supplier information (name, address, tax ID, contact info)'',
        ''- Customer/bill-to information (name, address)'',
        ''- Line items with descriptions, quantities, unit prices, and totals'',
        ''- Subtotal, tax amounts, and total'',
        ''- Payment terms and notes'',
        [],
        ''Return the data in a structured JSON format that matches the expected schema.'',
        ''Be precise with numbers and dates. If information is not available, use null.'',
        []])"

definition parse_try :: "string \<Rightarrow> exn + InvoiceData" where
  \<comment> \<open>The body of the \<open>try\<close> in \<open>_parse_extracted_data\<close>.\<close>
  "parse_try content =
     Inr (InvoiceData_default
            \<lparr> invoice_number := Some ''Extracted from AI response'',
              notes := Some (''Raw extracted content: '' @ take 500 content @ ''...'') \<rparr>)"

definition parse_except :: "exn \<Rightarrow> string \<Rightarrow> InvoiceData" where
  \<comment> \<open>The handler of \<open>_parse_extracted_data\<close>, for the exception \<open>e\<close>.\<close>
  "parse_except e content =
     InvoiceData_default
       \<lparr> notes := Some (''Parsing error: '' @ str_exn e @ ''. Raw content: ''
                        @ take 200 content @ ''...'') \<rparr>"

definition parse_extracted_data :: "string \<Rightarrow> exn + InvoiceData" where
  "parse_extracted_data content =
     (case parse_try content of
        Inr d \<Rightarrow> Inr d
      | Inl e \<Rightarrow> Inr (parse_except e content))"

definition result_text :: "zerox_result \<Rightarrow> string" where
  \<comment> \<open>\<open>result.content if result and hasattr(result, 'content') else str(result)\<close>\<close>
  "result_text result =
     (if result_truthy result then
        (case result_content result of Some c \<Rightarrow> c | None \<Rightarrow> result_str result)
      else result_str result)"

definition zerox_call :: "InvoiceProcessor \<Rightarrow> string \<Rightarrow> zerox_args" where
  \<comment> \<open>The keyword arguments \<open>process_invoice\<close> passes to \<open>zerox\<close>.\<close>
  "zerox_call self file_path =
     \<lparr> arg_file_path = file_path, arg_model = model self, arg_cleanup = True,
       arg_custom_system_prompt = system_prompt, arg_maintain_format = False,
       arg_temperature = 1 / 10 \<rparr>"

definition process_try ::
  "InvoiceProcessor \<Rightarrow> backend \<Rightarrow> environ \<Rightarrow> string \<Rightarrow> exn + InvoiceData" where
  \<comment> \<open>The body of the \<open>try\<close> in \<open>process_invoice\<close>, up to the parsed record.\<close>
  "process_try self zerox env file_path =
     (case zerox env (zerox_call self file_path) of
        Inl e \<Rightarrow> Inl e
      | Inr result \<Rightarrow> parse_extracted_data (result_text result))"

definition process_invoice ::
  "InvoiceProcessor \<Rightarrow> backend \<Rightarrow> environ \<Rightarrow> real \<Rightarrow> real \<Rightarrow> string \<Rightarrow> ProcessingResult"
  where
  \<comment> \<open>\<open>start_time\<close> and \<open>end_time\<close> are the two readings of \<open>time.time()\<close>.\<close>
  "process_invoice self zerox env start_time end_time file_path =
     (case process_try self zerox env file_path of
        Inr data \<Rightarrow>
          (ProcessingResult_new True)
            \<lparr> invoice_data := Some data,
              processing_time := Some (end_time - start_time),
              confidence_score := Some (9 / 10) \<rparr>
      | Inl e \<Rightarrow>
          (ProcessingResult_new False)
            \<lparr> error_message := Some (''Processing failed: '' @ str_exn e),
              processing_time := Some (end_time - start_time) \<rparr>)"

definition process_invoice_sync ::
  "InvoiceProcessor \<Rightarrow> backend \<Rightarrow> environ \<Rightarrow> real \<Rightarrow> real \<Rightarrow> string \<Rightarrow> ProcessingResult"
  where
  "process_invoice_sync self zerox env start_time end_time file_path =
     process_invoice self zerox env start_time end_time file_path"

definition construct_and_process ::
  "Settings \<Rightarrow> backend \<Rightarrow> environ \<Rightarrow> real \<Rightarrow> real \<Rightarrow> string \<Rightarrow> exn + ProcessingResult"
  where
  \<comment> \<open>\<open>InvoiceProcessor().process_invoice_sync(file_path)\<close>, the way a caller reaches
      the processing operation.\<close>
  "construct_and_process settings zerox env start_time end_time file_path =
     (case InvoiceProcessor_init settings env of
        Inl e \<Rightarrow> Inl e
      | Inr (processor, env') \<Rightarrow>
          Inr (process_invoice_sync processor zerox env' start_time end_time file_path))"


section \<open>cli.py: the command line entry point\<close>

text \<open>
  The two output streams are lists of lines, as bytes: the pictographs that open the
  messages are written as their UTF-8 encoding.
\<close>

definition receipt :: string where "receipt = [CHR 0xF0, CHR 0x9F, CHR 0xA7, CHR 0xBE]"
definition cross_mark :: string where "cross_mark = [CHR 0xE2, CHR 0x9D, CHR 0x8C]"
definition page_facing_up :: string where
  "page_facing_up = [CHR 0xF0, CHR 0x9F, CHR 0x93, CHR 0x84]"
definition check_mark :: string where "check_mark = [CHR 0xE2, CHR 0x9C, CHR 0x85]"
definition outbox_tray :: string where "outbox_tray = [CHR 0xF0, CHR 0x9F, CHR 0x93, CHR 0xA4]"
definition robot_face :: string where "robot_face = [CHR 0xF0, CHR 0x9F, CHR 0xA4, CHR 0x96]"
definition arrows :: string where "arrows = [CHR 0xF0, CHR 0x9F, CHR 0x94, CHR 0x84]"
definition stopwatch :: string where
  "stopwatch = [CHR 0xE2, CHR 0x8F, CHR 0xB1, CHR 0xEF, CHR 0xB8, CHR 0x8F]"
definition bar_chart :: string where "bar_chart = [CHR 0xF0, CHR 0x9F, CHR 0x93, CHR 0x8A]"
definition floppy_disk :: string where
  "floppy_disk = [CHR 0xF0, CHR 0x9F, CHR 0x92, CHR 0xBE]"

text \<open>
  What \<open>main\<close> uses from click, pathlib, pydantic, the built-in \<open>open\<close>, float
  formatting and \<open>traceback\<close> is a parameter: the report click prints for a path
  that does not exist, \<open>str(Path(p).with_suffix('.json'))\<close>, the method
  \<open>model_dump\<close> of an invoice record, the exception raised by
  \<open>open(output, 'w')\<close> if any, \<open>format(x, '.2f')\<close>, and the lines of
  \<open>traceback.print_exc()\<close>. The method \<open>model_dump\<close> exists from pydantic 2 on;
  under pydantic 1, the version from which \<open>config.py\<close> can import
  \<open>BaseSettings\<close>, the call raises \<open>AttributeError\<close>.

  The argument type \<open>click.Path(exists=True)\<close> accepts a path when \<open>os.stat\<close>
  succeeds on it, which is when \<open>os.path.getsize\<close> does; otherwise click ends the
  run with exit code 2 before \<open>main\<close> is entered.
\<close>

record cli_lib =
  usage_error :: "string \<Rightarrow> string list"
  with_suffix_json :: "string \<Rightarrow> exn + string"
  model_dump :: "InvoiceData \<Rightarrow> exn + InvoiceData"
  open_write :: "string \<Rightarrow> exn option"
  format_2f :: "real \<Rightarrow> string"
  print_exc :: "exn \<Rightarrow> string list"

text \<open>
  The dictionary written to the output file, and the observable outcome of one run:
  exit code, the two streams, the file written (path, content, and whether it is
  indented), and the calls made to the validator and to the backend, in order.
\<close>

record output_data =
  out_success :: bool
  out_processing_time :: "real option"
  out_confidence_score :: "real option"
  out_invoice_data :: "InvoiceData option"
  meta_input_file :: string
  meta_output_file :: string
  meta_model_used :: string

datatype call = Validate string | Extract string

record cli_result =
  exit_code :: int
  stdout :: "string list"
  stderr :: "string list"
  written :: "(string \<times> output_data \<times> bool) option"
  calls :: "call list"

definition no_provider_lines :: "string list" where
  "no_provider_lines =
     [cross_mark @ '' Error: No AI provider configured.'',
      ''Please set API keys in .env file:'',
      ''  - OPENAI_API_KEY for OpenAI GPT models'',
      ''  - GEMINI_API_KEY for Google Gemini models'',
      ''  - ANTHROPIC_API_KEY for Anthropic Claude models'']"

definition str_opt :: "string option \<Rightarrow> string" where
  \<comment> \<open>An \<open>Optional[str]\<close> inside an f-string.\<close>
  "str_opt m = (case m of None \<Rightarrow> ''None'' | Some s \<Rightarrow> s)"

definition format_opt_2f :: "cli_lib \<Rightarrow> real option \<Rightarrow> exn + string" where
  \<comment> \<open>\<open>f"{x:.2f}"\<close> for an \<open>Optional[float]\<close>: \<open>None\<close> does not take the format.\<close>
  "format_opt_2f lib x =
     (case x of
        None \<Rightarrow>
          Inl (Exc ''TypeError'' ''unsupported format string passed to NoneType.__format__'')
      | Some v \<Rightarrow> Inr (format_2f lib v))"

text \<open>
  The \<open>try\<close> block of \<open>main\<close> keeps what it has printed and written when it
  stops. It stops in one of three ways: it runs to its end, it leaves through
  \<open>sys.exit(1)\<close> (which \<open>except Exception\<close> does not catch), or it raises.
\<close>

datatype try_end = Completed | Exited "string list" | Raised exn

record try_state =
  try_stdout :: "string list"
  try_written :: "(string \<times> output_data \<times> bool) option"
  try_calls :: "call list"
  try_end :: try_end

definition main_try ::
  "Settings \<Rightarrow> backend \<Rightarrow> environ \<Rightarrow> cli_lib \<Rightarrow> real \<Rightarrow> real \<Rightarrow>
   string \<Rightarrow> string \<Rightarrow> bool \<Rightarrow> bool \<Rightarrow> try_state" where
  "main_try settings zerox env lib start_time end_time input_file output pretty verbose =
     (let out1 = (if verbose then [arrows @ '' Processing invoice...''] else [])
      in case InvoiceProcessor_init settings env of
           Inl e \<Rightarrow>
             \<lparr> try_stdout = out1, try_written = None, try_calls = [], try_end = Raised e \<rparr>
         | Inr (processor, env') \<Rightarrow>
             (let result = process_invoice_sync processor zerox env' start_time end_time
                             input_file
              in if \<not> success result then
                   \<lparr> try_stdout = out1, try_written = None, try_calls = [Extract input_file],
                     try_end = Exited [cross_mark @ '' Processing failed: ''
                                        @ str_opt (error_message result)] \<rparr>
                 else
                   case (case invoice_data result of
                           None \<Rightarrow> Inr None
                         | Some d \<Rightarrow>
                             (case model_dump lib d of
                                Inl e \<Rightarrow> Inl e
                              | Inr dumped \<Rightarrow> Inr (Some dumped))) of
                     Inl e \<Rightarrow>
                       \<lparr> try_stdout = out1, try_written = None,
                         try_calls = [Extract input_file], try_end = Raised e \<rparr>
                   | Inr dumped \<Rightarrow>
                       (case get_preferred_model settings of
                          Inl e \<Rightarrow>
                            \<lparr> try_stdout = out1, try_written = None,
                              try_calls = [Extract input_file], try_end = Raised e \<rparr>
                        | Inr (model_used, key) \<Rightarrow>
                            (let data =
                                   \<lparr> out_success = success result,
                                     out_processing_time = processing_time result,
                                     out_confidence_score = confidence_score result,
                                     out_invoice_data = dumped,
                                     meta_input_file = input_file,
                                     meta_output_file = output,
                                     meta_model_used = model_used \<rparr>
                             in case open_write lib output of
                                  Some e \<Rightarrow>
                                    \<lparr> try_stdout = out1, try_written = None,
                                      try_calls = [Extract input_file], try_end = Raised e \<rparr>
                                | None \<Rightarrow>
                                    (let file = Some (output, data, pretty);
                                         out2 = out1
                                           @ [check_mark
                                              @ '' Processing completed successfully!''];
                                         timing =
                                           (if verbose then
                                              (case format_opt_2f lib
                                                      (processing_time result) of
                                                 Inl e \<Rightarrow> Inl (e, [])
                                               | Inr t \<Rightarrow>
                                                   (case format_opt_2f lib
                                                           (confidence_score result) of
                                                      Inl e \<Rightarrow>
                                                        Inl (e, [stopwatch
                                                                 @ ''  Processing time: ''
                                                                 @ t @ '' seconds''])
                                                    | Inr c \<Rightarrow>
                                                        Inr [stopwatch
                                                             @ ''  Processing time: ''
                                                             @ t @ '' seconds'',
                                                             bar_chart
                                                             @ '' Confidence score: ''
                                                             @ c]))
                                            else Inr [])
                                     in case timing of
                                          Inl (e, printed) \<Rightarrow>
                                            \<lparr> try_stdout = out2 @ printed,
                                              try_written = file,
                                              try_calls = [Extract input_file],
                                              try_end = Raised e \<rparr>
                                        | Inr printed \<Rightarrow>
                                            \<lparr> try_stdout = out2 @ printed
                                                @ [floppy_disk @ '' Output saved to: ''
                                                   @ output],
                                              try_written = file,
                                              try_calls = [Extract input_file],
                                              try_end = Completed \<rparr>)))))"

definition main ::
  "Settings \<Rightarrow> filesystem \<Rightarrow> sniffer \<Rightarrow> backend \<Rightarrow> environ \<Rightarrow> cli_lib \<Rightarrow> real \<Rightarrow> real \<Rightarrow>
   string \<Rightarrow> string option \<Rightarrow> bool \<Rightarrow> bool \<Rightarrow> exn + cli_result" where
  \<comment> \<open>The result is \<open>Inl e\<close> when the exception \<open>e\<close> leaves \<open>main\<close>.\<close>
  "main settings fs magic_from_file zerox env lib start_time end_time
        input_file output pretty verbose =
     (case getsize fs input_file of
        Inl missing \<Rightarrow>
          Inr \<lparr> exit_code = 2, stdout = [], stderr = usage_error lib input_file,
                written = None, calls = [] \<rparr>
      | Inr found \<Rightarrow>
        let out0 = (if verbose then [receipt @ '' Invoice Extractor CLI'',
                                     replicate 50 CHR ''=''] else [])
        in if \<not> has_ai_provider settings then
             Inr \<lparr> exit_code = 1, stdout = out0, stderr = no_provider_lines,
                   written = None, calls = [] \<rparr>
           else
             let out1 = out0 @ (if verbose then [page_facing_up @ '' Validating file: ''
                                                 @ input_file] else [])
             in case validate_invoice_file settings fs magic_from_file input_file of
                  Inl e \<Rightarrow> Inl e
                | Inr (is_valid, validation_message) \<Rightarrow>
                    if \<not> is_valid then
                      Inr \<lparr> exit_code = 1, stdout = out1,
                            stderr = [cross_mark @ '' File validation failed: ''
                                      @ validation_message],
                            written = None, calls = [Validate input_file] \<rparr>
                    else
                      let out2 = out1 @ (if verbose then [check_mark @ '' ''
                                                          @ validation_message] else [])
                      in case (case output of
                                 None \<Rightarrow> with_suffix_json lib input_file
                               | Some given \<Rightarrow> Inr given) of
                           Inl e \<Rightarrow> Inl e
                         | Inr output' \<Rightarrow>
                             (case (if verbose then
                                      (case get_preferred_model settings of
                                         Inl e \<Rightarrow> Inl e
                                       | Inr (m, k) \<Rightarrow>
                                           Inr [outbox_tray @ '' Output file: '' @ output',
                                                robot_face @ '' Using AI model: '' @ m])
                                    else Inr []) of
                                Inl e \<Rightarrow> Inl e
                              | Inr lines \<Rightarrow>
                                  (let t = main_try settings zerox env lib start_time end_time
                                             input_file output' pretty verbose;
                                       out3 = out2 @ lines @ try_stdout t;
                                       log = Validate input_file # try_calls t
                                   in case try_end t of
                                        Completed \<Rightarrow>
                                          Inr \<lparr> exit_code = 0, stdout = out3, stderr = [],
                                                written = try_written t, calls = log \<rparr>
                                      | Exited err \<Rightarrow>
                                          Inr \<lparr> exit_code = 1, stdout = out3, stderr = err,
                                                written = try_written t, calls = log \<rparr>
                                      | Raised e \<Rightarrow>
                                          Inr \<lparr> exit_code = 1, stdout = out3,
                                                stderr = (cross_mark @ '' Unexpected error: ''
                                                          @ str_exn e)
                                                         # (if verbose then print_exc lib e
                                                            else []),
                                                written = try_written t, calls = log \<rparr>)))"


section \<open>Example inputs\<close>

text \<open>
  Concrete collaborators on which the properties below are exercised: a backend whose
  call raises, a backend that replies with an object that has no \<open>content\<close>
  attribute, a processor for the default OpenAI model, and a directory of three files
  with a sniffer for it. In that directory the empty path exists for \<open>Path.exists\<close>
  while \<open>os.path.getsize\<close> rejects it, and a name of more than 255 characters makes
  both calls raise. The library of the command line is that of pydantic 1, where
  \<open>model_dump\<close> raises.
\<close>

definition failing_backend :: backend where
  "failing_backend env args = Inl (Exc ''ConnectionError'' ''connection refused'')"

definition text_backend :: backend where
  "text_backend env args =
     Inr \<lparr> result_truthy = True, result_content = None, result_str = ''INVOICE 42'' \<rparr>"

definition gpt_processor :: InvoiceProcessor where
  "gpt_processor = \<lparr> model = ''gpt-4o'', api_key = ''sk-o'' \<rparr>"

definition quoted :: "string \<Rightarrow> string" where
  "quoted s = CHR 0x27 # s @ [CHR 0x27]"

definition example_sizes :: "string \<rightharpoonup> nat" where
  "example_sizes =
     [''invoice.pdf'' \<mapsto> 10485760, ''big.pdf'' \<mapsto> 10485761, ''letter.txt'' \<mapsto> 12]"

definition example_fs :: filesystem where
  "example_fs =
     \<lparr> path_exists =
         (\<lambda>p. if 255 < length p then
                 Inl (Exc ''OSError'' (''[Errno 36] File name too long: '' @ quoted p))
               else Inr (p = [] \<or> example_sizes p \<noteq> None)),
       getsize =
         (\<lambda>p. if 255 < length p then
                 Inl (Exc ''OSError'' (''[Errno 36] File name too long: '' @ quoted p))
               else
                 case example_sizes p of
                   None \<Rightarrow>
                     Inl (Exc ''FileNotFoundError''
                            (''[Errno 2] No such file or directory: '' @ quoted p))
                 | Some n \<Rightarrow> Inr n) \<rparr>"

definition example_magic :: sniffer where
  "example_magic file_path =
     (if file_path = ''letter.txt'' then Inr ''text/plain'' else Inr ''application/pdf'')"

definition example_lib :: cli_lib where
  "example_lib =
     \<lparr> usage_error = (\<lambda>p. [''Error: Path '' @ quoted p @ '' does not exist.'']),
       with_suffix_json = (\<lambda>p. Inr (takeWhile (\<lambda>c. c \<noteq> CHR ''.'') p @ ''.json'')),
       model_dump =
         (\<lambda>d. Inl (Exc ''AttributeError''
                      (quoted ''InvoiceData'' @ '' object has no attribute ''
                       @ quoted ''model_dump''))),
       open_write = (\<lambda>p. None),
       format_2f = (\<lambda>x. ''?''),
       print_exc = (\<lambda>e. []) \<rparr>"

definition openai_settings :: Settings where
  "openai_settings = default_settings\<lparr> openai_api_key := Some ''sk-o'' \<rparr>"



section \<open>Properties of the configuration\<close>

lemma truthy_iff: "truthy k \<longleftrightarrow> (\<exists>s. k = Some s \<and> s \<noteq> [])"
  by (cases k) (simp_all add: truthy_def)

text \<open>
  Claim C7. The preferred model is chosen in the fixed order OpenAI, Gemini, Anthropic:
  the result is the model identifier and the credential of the first provider whose
  credential is set (present and non-empty), and the call fails, with the
  \<open>ValueError\<close> "No AI provider configured", exactly when no credential is set.
\<close>

theorem get_preferred_model_priority:
  "(\<forall>k. openai_api_key s = Some k \<and> k \<noteq> [] \<longrightarrow>
        get_preferred_model s = Inr (openai_model s, k)) \<and>
   (\<forall>k. \<not> truthy (openai_api_key s) \<and> gemini_api_key s = Some k \<and> k \<noteq> [] \<longrightarrow>
        get_preferred_model s = Inr (gemini_model s, k)) \<and>
   (\<forall>k. \<not> truthy (openai_api_key s) \<and> \<not> truthy (gemini_api_key s) \<and>
        anthropic_api_key s = Some k \<and> k \<noteq> [] \<longrightarrow>
        get_preferred_model s = Inr (anthropic_model s, k)) \<and>
   ((\<exists>e. get_preferred_model s = Inl e) \<longleftrightarrow>
      \<not> truthy (openai_api_key s) \<and> \<not> truthy (gemini_api_key s) \<and>
      \<not> truthy (anthropic_api_key s)) \<and>
   (\<forall>e. get_preferred_model s = Inl e \<longrightarrow> e = ValueError ''No AI provider configured'')"
  by (auto simp: get_preferred_model_def truthy_def split: option.splits)

theorem get_preferred_model_priority_witness:
  "get_preferred_model
     (default_settings\<lparr> openai_api_key := Some ''sk-o'', gemini_api_key := Some ''sk-g'',
                        anthropic_api_key := Some ''sk-a'' \<rparr>) = Inr (''gpt-4o'', ''sk-o'') \<and>
   get_preferred_model
     (default_settings\<lparr> gemini_api_key := Some ''sk-g'',
                        anthropic_api_key := Some ''sk-a'' \<rparr>)
     = Inr (''gemini-2.0-flash-exp'', ''sk-g'') \<and>
   get_preferred_model (default_settings\<lparr> anthropic_api_key := Some ''sk-a'' \<rparr>)
     = Inr (''claude-3-5-sonnet-20241022'', ''sk-a'') \<and>
   get_preferred_model default_settings = Inl (ValueError ''No AI provider configured'')"
proof -
  let ?all = "default_settings\<lparr> openai_api_key := Some ''sk-o'',
                gemini_api_key := Some ''sk-g'', anthropic_api_key := Some ''sk-a'' \<rparr>"
  let ?no_openai = "default_settings\<lparr> gemini_api_key := Some ''sk-g'',
                      anthropic_api_key := Some ''sk-a'' \<rparr>"
  let ?only_anthropic = "default_settings\<lparr> anthropic_api_key := Some ''sk-a'' \<rparr>"
  have a: "get_preferred_model ?all = Inr (''gpt-4o'', ''sk-o'')"
    using get_preferred_model_priority [of ?all]
    by (simp add: default_settings_def)
  have b: "get_preferred_model ?no_openai = Inr (''gemini-2.0-flash-exp'', ''sk-g'')"
    using get_preferred_model_priority [of ?no_openai]
    by (simp add: default_settings_def truthy_def)
  have c: "get_preferred_model ?only_anthropic
             = Inr (''claude-3-5-sonnet-20241022'', ''sk-a'')"
    using get_preferred_model_priority [of ?only_anthropic]
    by (simp add: default_settings_def truthy_def)
  have "\<exists>e. get_preferred_model default_settings = Inl e"
    using get_preferred_model_priority [of default_settings]
    by (simp add: default_settings_def truthy_def)
  then have d: "get_preferred_model default_settings
                  = Inl (ValueError ''No AI provider configured'')"
    using get_preferred_model_priority [of default_settings] by blast
  from a b c d show ?thesis by simp
qed

section \<open>Properties of the text primitives\<close>

lemma py_in_iff: "py_in sub s \<longleftrightarrow> (\<exists>pre post. s = pre @ sub @ post)"
proof (induction s)
  case Nil
  then show ?case by auto
next
  case (Cons c cs)
  show ?case
  proof
    assume "py_in sub (c # cs)"
    then consider "starts_with sub (c # cs)" | "py_in sub cs" by auto
    then show "\<exists>pre post. c # cs = pre @ sub @ post"
    proof cases
      case 1
      then have "c # cs = [] @ sub @ drop (length sub) (c # cs)"
        unfolding starts_with_def by (metis append_Nil append_take_drop_id)
      then show ?thesis by blast
    next
      case 2
      then obtain pre post where "cs = pre @ sub @ post" using Cons.IH by blast
      then have "c # cs = (c # pre) @ sub @ post" by simp
      then show ?thesis by blast
    qed
  next
    assume "\<exists>pre post. c # cs = pre @ sub @ post"
    then obtain pre post where eq: "c # cs = pre @ sub @ post" by blast
    show "py_in sub (c # cs)"
    proof (cases pre)
      case Nil
      then have "starts_with sub (c # cs)" using eq by (simp add: starts_with_def)
      then show ?thesis by simp
    next
      case (Cons p ps)
      then have "cs = ps @ sub @ post" using eq by simp
      then have "py_in sub cs" using Cons.IH by blast
      then show ?thesis by simp
    qed
  qed
qed

lemma round_half_even_div_nearest:
  assumes "0 < b"
  shows "2 * \<bar>int a - int (round_half_even_div a b * b)\<bar> \<le> int b"
proof -
  define q where "q = a div b"
  define r where "r = a mod b"
  have a: "a = q * b + r" by (simp add: q_def r_def)
  have r: "r < b" using assms by (simp add: r_def)
  show ?thesis
  proof (cases "b < 2 * r \<or> (2 * r = b \<and> odd q)")
    case True
    then have "round_half_even_div a b = q + 1"
      by (simp add: round_half_even_div_def Let_def q_def r_def)
    moreover have "b \<le> 2 * r" using True by auto
    ultimately show ?thesis using a r by (simp add: algebra_simps)
  next
    case False
    then have "round_half_even_div a b = q"
      by (simp add: round_half_even_div_def Let_def q_def r_def)
    moreover have "2 * r \<le> b" using False by auto
    ultimately show ?thesis using a by simp
  qed
qed

lemma to_float_small: "n < 2 ^ 53 \<Longrightarrow> to_float n = n"
  by (simp add: to_float_def)

lemma format_mb_nearest_tenth:
  assumes "n < 2 ^ 53"
  shows "\<exists>t. format_mb n = show_nat (t div 10) @ ''.'' @ show_nat (t mod 10) \<and>
             2 * \<bar>int (10 * n) - int (t * 2 ^ 20)\<bar> \<le> 2 ^ 20"
proof -
  let ?t = "round_half_even_div (n * 10) (2 ^ 20)"
  have "format_mb n = show_nat (?t div 10) @ ''.'' @ show_nat (?t mod 10)"
    using assms by (simp add: format_mb_def to_float_small Let_def)
  moreover have "2 * \<bar>int (10 * n) - int (?t * 2 ^ 20)\<bar> \<le> 2 ^ 20"
    using round_half_even_div_nearest [of "2 ^ 20" "n * 10"] by (simp add: mult.commute)
  ultimately show ?thesis by blast
qed

lemma format_mb_examples:
  "format_mb 10485761 = ''10.0''" "format_mb 2097152 = ''2.0''" "format_mb 262144 = ''0.2''"
  by (simp_all add: format_mb_def to_float_def round_half_even_div_def show_nat.simps
      digit_char_def)

lemma show_int_examples: "show_int 10 = ''10''" "show_int 1 = ''1''" "show_int (- 1) = ''-1''"
  by (simp_all add: show_int_def show_nat.simps digit_char_def)


section \<open>Properties of the validator\<close>

text \<open>
  Claim C5. For a file that exists, size validation passes exactly when its byte length
  is at most \<open>MAX_FILE_SIZE_MB \<sqdot> 1,048,576\<close>: a file of exactly that many bytes
  passes, a file one byte larger fails with the reason
  "File size (X.YMB) exceeds limit (NMB)", and X.Y is the size in megabytes rendered to
  one decimal, that is (for every size binary64 holds exactly) the multiple of one
  tenth nearest to the size divided by 1,048,576.
\<close>

theorem validate_file_size_boundary:
  assumes "getsize fs file_path = Inr n"
  shows "((\<exists>reason. validate_file_size st fs file_path = Inr (True, reason)) \<longleftrightarrow>
            int n \<le> max_file_size_mb st * 1048576) \<and>
         (int n = max_file_size_mb st * 1048576 \<longrightarrow>
            validate_file_size st fs file_path = Inr (True, [])) \<and>
         (int n = max_file_size_mb st * 1048576 + 1 \<longrightarrow>
            validate_file_size st fs file_path =
              Inr (False, ''File size ('' @ format_mb n @ ''MB) exceeds limit (''
                          @ show_int (max_file_size_mb st) @ ''MB)'')) \<and>
         (n < 2 ^ 53 \<longrightarrow>
            (\<exists>t. format_mb n = show_nat (t div 10) @ ''.'' @ show_nat (t mod 10) \<and>
                 2 * \<bar>int (10 * n) - int (t * 2 ^ 20)\<bar> \<le> 2 ^ 20))"
  using assms format_mb_nearest_tenth [of n]
  by (simp add: validate_file_size_def Let_def)

theorem validate_file_size_boundary_witness:
  "getsize example_fs ''invoice.pdf'' = Inr 10485760 \<and>
   validate_file_size default_settings example_fs ''invoice.pdf'' = Inr (True, []) \<and>
   getsize example_fs ''big.pdf'' = Inr 10485761 \<and>
   validate_file_size default_settings example_fs ''big.pdf''
     = Inr (False, ''File size (10.0MB) exceeds limit (10MB)'') \<and>
   (\<exists>t. format_mb 10485761 = show_nat (t div 10) @ ''.'' @ show_nat (t mod 10) \<and>
        2 * \<bar>int (10 * 10485761) - int (t * 2 ^ 20)\<bar> \<le> 2 ^ 20)"
proof -
  have at: "getsize example_fs ''invoice.pdf'' = Inr 10485760"
    and over: "getsize example_fs ''big.pdf'' = Inr 10485761"
    by (simp_all add: example_fs_def example_sizes_def)
  have limit: "max_file_size_mb default_settings = 10"
    by (simp add: default_settings_def)
  have "validate_file_size default_settings example_fs ''invoice.pdf'' = Inr (True, [])"
    using validate_file_size_boundary [of example_fs "''invoice.pdf''" 10485760 default_settings]
          at limit
    by simp
  moreover have "validate_file_size default_settings example_fs ''big.pdf''
                   = Inr (False, ''File size (10.0MB) exceeds limit (10MB)'')"
    using validate_file_size_boundary [of example_fs "''big.pdf''" 10485761 default_settings]
          over limit
    by (simp add: format_mb_examples show_int_examples)
  moreover have
    "\<exists>t. format_mb 10485761 = show_nat (t div 10) @ ''.'' @ show_nat (t mod 10) \<and>
         2 * \<bar>int (10 * 10485761) - int (t * 2 ^ 20)\<bar> \<le> 2 ^ 20"
    using validate_file_size_boundary [of example_fs "''big.pdf''" 10485761 default_settings]
          over
    by simp
  ultimately show ?thesis using at over by blast
qed






text \<open>
  The validator returns a pair unless the existence stage raises, or the existence
  stage passes and the size stage raises; the content-type stage catches what its
  sniffer raises. Both happen in the example directory: at the empty path the size
  stage raises, and at an overlong name the existence stage does.
\<close>

lemma validate_invoice_file_raises:
  "validate_invoice_file st fs magic p = Inl e \<longleftrightarrow>
     validate_file_exists fs p = Inl e \<or>
     (validate_file_exists fs p = Inr True \<and> validate_file_size st fs p = Inl e)"
  by (auto simp: validate_invoice_file_def split: sum.splits prod.splits if_splits)

lemma validate_invoice_file_returns:
  "(\<exists>ok reason. validate_invoice_file st fs magic p = Inr (ok, reason)) \<longleftrightarrow>
     validate_file_exists fs p = Inr False \<or>
     (validate_file_exists fs p = Inr True \<and> (\<exists>r. validate_file_size st fs p = Inr r))"
  by (auto simp: validate_invoice_file_def split: sum.splits prod.splits if_splits)

lemma validate_empty_path_raises:
  "validate_invoice_file default_settings example_fs example_magic []
     = Inl (Exc ''FileNotFoundError''
              (''[Errno 2] No such file or directory: '' @ quoted []))"
  by (simp add: validate_invoice_file_def validate_file_exists_def validate_file_size_def
      example_fs_def example_sizes_def)

lemma validate_long_name_raises:
  "validate_invoice_file default_settings example_fs example_magic (replicate 300 CHR ''a'')
     = Inl (Exc ''OSError''
              (''[Errno 36] File name too long: '' @ quoted (replicate 300 CHR ''a'')))"
  by (simp add: validate_invoice_file_def validate_file_exists_def example_fs_def)


section \<open>Properties of the processor\<close>

lemma process_invoice_sync_eq: "process_invoice_sync = process_invoice"
  by (intro ext) (simp add: process_invoice_sync_def)

lemma process_try_failing:
  "process_try gpt_processor failing_backend Map.empty ''a.pdf''
     = Inl (Exc ''ConnectionError'' ''connection refused'')"
  by (simp add: process_try_def failing_backend_def)

lemma process_invoice_failing:
  "process_invoice gpt_processor failing_backend Map.empty 100 102 ''a.pdf'' =
     \<lparr> success = False, invoice_data = None,
       error_message = Some ''Processing failed: connection refused'',
       processing_time = Some 2, confidence_score = None \<rparr>"
  by (simp add: process_invoice_def process_try_failing ProcessingResult_new_def)

lemma process_invoice_text:
  "process_invoice gpt_processor text_backend Map.empty 100 102 ''a.pdf'' =
     \<lparr> success = True,
       invoice_data = Some
         \<lparr> invoice_number = Some ''Extracted from AI response'', date = None,
           due_date = None, vendor = None, customer = None, totals = None,
           line_items = [], notes = Some ''Raw extracted content: INVOICE 42...'',
           payment_terms = None \<rparr>,
       error_message = None, processing_time = Some 2, confidence_score = Some (9 / 10) \<rparr>"
  by (simp add: process_invoice_def process_try_def text_backend_def ProcessingResult_new_def
      parse_extracted_data_def parse_try_def result_text_def InvoiceData_default_def)

text \<open>
  Claim C1. Every result returned by \<open>process_invoice\<close> is well formed: when
  \<open>success\<close> is false, \<open>invoice_data\<close> is \<open>None\<close> and \<open>error_message\<close> is
  not; when \<open>success\<close> is true, \<open>invoice_data\<close> is present and
  \<open>error_message\<close> is \<open>None\<close>.
\<close>

theorem process_invoice_envelope:
  assumes "r = process_invoice self zerox env start_time end_time file_path"
  shows "(\<not> success r \<longrightarrow> invoice_data r = None \<and> error_message r \<noteq> None) \<and>
         (success r \<longrightarrow> invoice_data r \<noteq> None \<and> error_message r = None)"
  using assms
  by (simp add: process_invoice_def ProcessingResult_new_def split: sum.splits)

theorem process_invoice_envelope_witness:
  "\<not> success (process_invoice gpt_processor failing_backend Map.empty 100 102 ''a.pdf'') \<and>
   invoice_data (process_invoice gpt_processor failing_backend Map.empty 100 102 ''a.pdf'')
     = None \<and>
   error_message (process_invoice gpt_processor failing_backend Map.empty 100 102 ''a.pdf'')
     \<noteq> None \<and>
   success (process_invoice gpt_processor text_backend Map.empty 100 102 ''a.pdf'') \<and>
   invoice_data (process_invoice gpt_processor text_backend Map.empty 100 102 ''a.pdf'')
     \<noteq> None \<and>
   error_message (process_invoice gpt_processor text_backend Map.empty 100 102 ''a.pdf'')
     = None"
proof -
  have f: "\<not> success (process_invoice gpt_processor failing_backend Map.empty 100 102 ''a.pdf'')"
    by (simp add: process_invoice_failing)
  have t: "success (process_invoice gpt_processor text_backend Map.empty 100 102 ''a.pdf'')"
    by (simp add: process_invoice_text)
  from f t
    process_invoice_envelope
      [OF refl, of gpt_processor failing_backend Map.empty 100 102 "''a.pdf''"]
    process_invoice_envelope
      [OF refl, of gpt_processor text_backend Map.empty 100 102 "''a.pdf''"]
  show ?thesis by blast
qed

text \<open>
  Claim C10. Whenever the body of the \<open>try\<close> in \<open>process_invoice\<close> raises an
  exception \<open>e\<close> (in particular whenever the call to \<open>zerox\<close> does), the result is
  the failed envelope whose \<open>error_message\<close> is "Processing failed: " followed by
  \<open>str(e)\<close>, whose \<open>processing_time\<close> is the elapsed time and whose
  \<open>confidence_score\<close> is \<open>None\<close>. A successful result always carries the
  confidence 0.9.
\<close>

theorem process_invoice_failure_envelope:
  "(\<forall>e. process_try self zerox env file_path = Inl e \<longrightarrow>
      process_invoice self zerox env start_time end_time file_path =
        \<lparr> success = False, invoice_data = None,
          error_message = Some (''Processing failed: '' @ str_exn e),
          processing_time = Some (end_time - start_time), confidence_score = None \<rparr>) \<and>
   (\<forall>e. zerox env (zerox_call self file_path) = Inl e \<longrightarrow>
      process_try self zerox env file_path = Inl e) \<and>
   (success (process_invoice self zerox env start_time end_time file_path) \<longrightarrow>
      confidence_score (process_invoice self zerox env start_time end_time file_path)
        = Some (9 / 10))"
  by (simp add: process_invoice_def process_try_def ProcessingResult_new_def split: sum.splits)

theorem process_invoice_failure_envelope_witness:
  "process_invoice gpt_processor failing_backend Map.empty 100 102 ''a.pdf'' =
     \<lparr> success = False, invoice_data = None,
       error_message = Some ''Processing failed: connection refused'',
       processing_time = Some 2, confidence_score = None \<rparr> \<and>
   confidence_score (process_invoice gpt_processor text_backend Map.empty 100 102 ''a.pdf'')
     = Some (9 / 10)"
proof -
  have z: "failing_backend Map.empty (zerox_call gpt_processor ''a.pdf'')
             = Inl (Exc ''ConnectionError'' ''connection refused'')"
    by (simp add: failing_backend_def)
  have t: "success (process_invoice gpt_processor text_backend Map.empty 100 102 ''a.pdf'')"
    by (simp add: process_invoice_text)
  have "process_try gpt_processor failing_backend Map.empty ''a.pdf''
          = Inl (Exc ''ConnectionError'' ''connection refused'')"
    using z process_invoice_failure_envelope
            [of gpt_processor failing_backend Map.empty "''a.pdf''" 100 102]
    by blast
  then have "process_invoice gpt_processor failing_backend Map.empty 100 102 ''a.pdf'' =
     \<lparr> success = False, invoice_data = None,
       error_message = Some ''Processing failed: connection refused'',
       processing_time = Some 2, confidence_score = None \<rparr>"
    using process_invoice_failure_envelope
            [of gpt_processor failing_backend Map.empty "''a.pdf''" 100 102]
    by simp
  moreover have "confidence_score
      (process_invoice gpt_processor text_backend Map.empty 100 102 ''a.pdf'') = Some (9 / 10)"
    using t process_invoice_failure_envelope
            [of gpt_processor text_backend Map.empty "''a.pdf''" 100 102]
    by blast
  ultimately show ?thesis by blast
qed

text \<open>
  Claim C2, as stated, fails: with no credential configured the constructor raises, so
  the exception reaches the caller and no result envelope is produced.
\<close>

theorem no_provider_escapes_counterexample:
  "construct_and_process default_settings text_backend Map.empty 100 102 ''any.pdf''
     = Inl (ValueError ''No AI provider configured. Please set API keys in .env file.'')"
  by (simp add: construct_and_process_def InvoiceProcessor_init_def has_ai_provider_def
      default_settings_def truthy_def)

text \<open>
  Claim C2, amended. When none of the three credentials is set, constructing the
  processor raises the \<open>ValueError\<close>
  "No AI provider configured. Please set API keys in .env file.", whose message
  contains "No AI provider configured"; constructing and then processing therefore
  ends with that exception for every path and every backend.
\<close>

theorem no_provider_raises:
  assumes "\<not> truthy (openai_api_key st)" and "\<not> truthy (gemini_api_key st)"
    and "\<not> truthy (anthropic_api_key st)"
  shows "InvoiceProcessor_init st env
           = Inl (ValueError ''No AI provider configured. Please set API keys in .env file.'') \<and>
         construct_and_process st zerox env start_time end_time file_path
           = Inl (ValueError ''No AI provider configured. Please set API keys in .env file.'') \<and>
         py_in ''No AI provider configured''
           (str_exn (ValueError ''No AI provider configured. Please set API keys in .env file.''))"
  using assms
  by (simp add: construct_and_process_def InvoiceProcessor_init_def has_ai_provider_def
      ValueError_def starts_with_def)

theorem no_provider_raises_witness:
  "\<not> truthy (openai_api_key default_settings) \<and>
   \<not> truthy (gemini_api_key default_settings) \<and>
   \<not> truthy (anthropic_api_key default_settings) \<and>
   InvoiceProcessor_init default_settings Map.empty
     = Inl (ValueError ''No AI provider configured. Please set API keys in .env file.'') \<and>
   construct_and_process default_settings failing_backend Map.empty 100 102 ''any.pdf''
     = Inl (ValueError ''No AI provider configured. Please set API keys in .env file.'')"
proof -
  have h: "\<not> truthy (openai_api_key default_settings)"
    "\<not> truthy (gemini_api_key default_settings)"
    "\<not> truthy (anthropic_api_key default_settings)"
    by (simp_all add: default_settings_def truthy_def)
  from h no_provider_raises [OF h, of Map.empty failing_backend 100 102 "''any.pdf''"]
  show ?thesis by blast
qed

text \<open>
  Claim C6, as stated, fails: for a text that is not structured data the returned
  record does not have every structured field null, since \<open>invoice_number\<close> is a
  fixed placeholder.
\<close>

theorem parse_placeholder_counterexample:
  "parse_extracted_data ''Thank you for your business'' =
     Inr \<lparr> invoice_number = Some ''Extracted from AI response'', date = None,
           due_date = None, vendor = None, customer = None, totals = None, line_items = [],
           notes = Some ''Raw extracted content: Thank you for your business...'',
           payment_terms = None \<rparr> \<and>
   invoice_number (projr (parse_extracted_data ''Thank you for your business'')) \<noteq> None"
  by (simp add: parse_extracted_data_def parse_try_def InvoiceData_default_def)

text \<open>
  Claim C6, amended. The parser is total: for every text it returns a record and never
  raises. The record has \<open>invoice_number\<close> set to the placeholder
  "Extracted from AI response", every other structured field null, no line items, and
  \<open>notes\<close> equal to "Raw extracted content: ", the first 500 characters of the text
  and "...". The body of the \<open>try\<close> never raises; its handler would return the
  record whose only field is \<open>notes\<close>, equal to "Parsing error: <detail>. Raw
  content: <first 200 characters>...".
\<close>

theorem parse_extracted_data_total:
  "parse_extracted_data content =
     Inr \<lparr> invoice_number = Some ''Extracted from AI response'', date = None,
           due_date = None, vendor = None, customer = None, totals = None, line_items = [],
           notes = Some (''Raw extracted content: '' @ take 500 content @ ''...''),
           payment_terms = None \<rparr> \<and>
   (\<forall>e. parse_try content \<noteq> Inl e) \<and>
   parse_except e content =
     \<lparr> invoice_number = None, date = None, due_date = None, vendor = None,
       customer = None, totals = None, line_items = [],
       notes = Some (''Parsing error: '' @ str_exn e @ ''. Raw content: ''
                     @ take 200 content @ ''...''),
       payment_terms = None \<rparr>"
  by (simp add: parse_extracted_data_def parse_try_def parse_except_def
      InvoiceData_default_def)

text \<open>
  Claim C9. The record produced by the parser has a list of line items, the empty one,
  on its normal path and in its handler alike.
\<close>

theorem parse_line_items_present:
  "(\<exists>d. parse_extracted_data content = Inr d \<and> line_items d = []) \<and>
   line_items (parse_except e content) = []"
  by (simp add: parse_extracted_data_def parse_try_def parse_except_def
      InvoiceData_default_def)

text \<open>
  Claim C8, as stated, fails: a model identifier that contains none of "gpt", "gemini"
  and "claude" is accepted; the processor is constructed and the environment is left
  as it was.
\<close>

theorem unknown_model_accepted_counterexample:
  "InvoiceProcessor_init
     (default_settings\<lparr> openai_api_key := Some ''sk-o'', openai_model := ''llama-3'' \<rparr>)
     Map.empty
   = Inr (\<lparr> model = ''llama-3'', api_key = ''sk-o'' \<rparr>, Map.empty)"
  by (simp add: InvoiceProcessor_init_def default_settings_def has_ai_provider_def
      truthy_def get_preferred_model_def setup_environment_def lower_def lower_char_def
      starts_with_def)

text \<open>
  Claim C8, amended. The credential is routed by substring match on the lower-cased
  model identifier, testing "gpt", then "gemini", then "claude": the first that occurs
  decides whether the credential is stored under \<open>OPENAI_API_KEY\<close>,
  \<open>GEMINI_API_KEY\<close> or \<open>ANTHROPIC_API_KEY\<close>. When none occurs the environment
  is unchanged, and the constructor succeeds for every model identifier the settings
  select.
\<close>

theorem setup_environment_routing:
  "(py_in ''gpt'' (lower (model self)) \<longrightarrow>
      setup_environment self env = env(''OPENAI_API_KEY'' \<mapsto> api_key self)) \<and>
   (\<not> py_in ''gpt'' (lower (model self)) \<and> py_in ''gemini'' (lower (model self)) \<longrightarrow>
      setup_environment self env = env(''GEMINI_API_KEY'' \<mapsto> api_key self)) \<and>
   (\<not> py_in ''gpt'' (lower (model self)) \<and> \<not> py_in ''gemini'' (lower (model self)) \<and>
    py_in ''claude'' (lower (model self)) \<longrightarrow>
      setup_environment self env = env(''ANTHROPIC_API_KEY'' \<mapsto> api_key self)) \<and>
   (\<not> py_in ''gpt'' (lower (model self)) \<and> \<not> py_in ''gemini'' (lower (model self)) \<and>
    \<not> py_in ''claude'' (lower (model self)) \<longrightarrow>
      setup_environment self env = env) \<and>
   (\<forall>m k. get_preferred_model st = Inr (m, k) \<longrightarrow>
      InvoiceProcessor_init st env
        = Inr (\<lparr> model = m, api_key = k \<rparr>,
               setup_environment \<lparr> model = m, api_key = k \<rparr> env))"
  by (auto simp: setup_environment_def InvoiceProcessor_init_def has_ai_provider_def
      get_preferred_model_def split: if_splits)

lemma model_matches:
  "py_in ''gpt'' (lower ''GPT-4-Turbo'')"
  "\<not> py_in ''gpt'' (lower ''gemini-2.0-flash-exp'')"
  "py_in ''gemini'' (lower ''gemini-2.0-flash-exp'')"
  "\<not> py_in ''gpt'' (lower ''claude-3-5-sonnet-20241022'')"
  "\<not> py_in ''gemini'' (lower ''claude-3-5-sonnet-20241022'')"
  "py_in ''claude'' (lower ''claude-3-5-sonnet-20241022'')"
  "\<not> py_in ''gpt'' (lower ''llama-3'')"
  "\<not> py_in ''gemini'' (lower ''llama-3'')"
  "\<not> py_in ''claude'' (lower ''llama-3'')"
  by (simp_all add: lower_def lower_char_def starts_with_def)

theorem setup_environment_routing_witness:
  "setup_environment \<lparr> model = ''GPT-4-Turbo'', api_key = ''sk-o'' \<rparr> Map.empty
     = [''OPENAI_API_KEY'' \<mapsto> ''sk-o''] \<and>
   setup_environment \<lparr> model = ''gemini-2.0-flash-exp'', api_key = ''sk-g'' \<rparr> Map.empty
     = [''GEMINI_API_KEY'' \<mapsto> ''sk-g''] \<and>
   setup_environment \<lparr> model = ''claude-3-5-sonnet-20241022'', api_key = ''sk-a'' \<rparr> Map.empty
     = [''ANTHROPIC_API_KEY'' \<mapsto> ''sk-a''] \<and>
   setup_environment \<lparr> model = ''llama-3'', api_key = ''sk-o'' \<rparr> Map.empty = Map.empty \<and>
   InvoiceProcessor_init
     (default_settings\<lparr> openai_api_key := Some ''sk-o'', openai_model := ''llama-3'' \<rparr>)
     Map.empty
   = Inr (\<lparr> model = ''llama-3'', api_key = ''sk-o'' \<rparr>, Map.empty)"
proof -
  let ?st = "default_settings\<lparr> openai_api_key := Some ''sk-o'', openai_model := ''llama-3'' \<rparr>"
  have a: "setup_environment \<lparr> model = ''GPT-4-Turbo'', api_key = ''sk-o'' \<rparr> Map.empty
             = [''OPENAI_API_KEY'' \<mapsto> ''sk-o'']"
    using setup_environment_routing
            [of "\<lparr> model = ''GPT-4-Turbo'', api_key = ''sk-o'' \<rparr>" Map.empty]
          model_matches
    by simp
  have b: "setup_environment \<lparr> model = ''gemini-2.0-flash-exp'', api_key = ''sk-g'' \<rparr>
             Map.empty = [''GEMINI_API_KEY'' \<mapsto> ''sk-g'']"
    using setup_environment_routing
            [of "\<lparr> model = ''gemini-2.0-flash-exp'', api_key = ''sk-g'' \<rparr>" Map.empty]
          model_matches
    by simp
  have c: "setup_environment \<lparr> model = ''claude-3-5-sonnet-20241022'', api_key = ''sk-a'' \<rparr>
             Map.empty = [''ANTHROPIC_API_KEY'' \<mapsto> ''sk-a'']"
    using setup_environment_routing
            [of "\<lparr> model = ''claude-3-5-sonnet-20241022'', api_key = ''sk-a'' \<rparr>" Map.empty]
          model_matches
    by simp
  have d: "setup_environment \<lparr> model = ''llama-3'', api_key = ''sk-o'' \<rparr> Map.empty
             = Map.empty"
    using setup_environment_routing
            [of "\<lparr> model = ''llama-3'', api_key = ''sk-o'' \<rparr>" Map.empty]
          model_matches
    by simp
  have "get_preferred_model ?st = Inr (''llama-3'', ''sk-o'')"
    by (simp add: get_preferred_model_def default_settings_def truthy_def)
  then have e: "InvoiceProcessor_init ?st Map.empty
                  = Inr (\<lparr> model = ''llama-3'', api_key = ''sk-o'' \<rparr>, Map.empty)"
    using setup_environment_routing
            [of "\<lparr> model = ''llama-3'', api_key = ''sk-o'' \<rparr>" Map.empty ?st] d
    by simp
  from a b c d e show ?thesis by blast
qed


section \<open>Properties of the command line entry point\<close>

lemma main_try_calls:
  "try_calls (main_try st zerox env lib t0 t1 p out pretty verbose) = [] \<or>
   try_calls (main_try st zerox env lib t0 t1 p out pretty verbose) = [Extract p]"
  by (simp add: main_try_def Let_def split: sum.splits prod.splits option.splits)

lemma main_calls_shape:
  assumes "main st fs magic zerox env lib t0 t1 p output pretty verbose = Inr r"
  shows "calls r = [] \<or> calls r = [Validate p] \<or>
         (\<exists>out. calls r
                  = Validate p # try_calls (main_try st zerox env lib t0 t1 p out pretty verbose))"
  using assms
  by (auto simp: main_def Let_def
           split: if_splits sum.splits prod.splits option.splits try_end.splits)

lemma main_calls_cases:
  assumes "main st fs magic zerox env lib t0 t1 p output pretty verbose = Inr r"
  shows "calls r = [] \<or> calls r = [Validate p] \<or> calls r = [Validate p, Extract p]"
  using main_calls_shape [OF assms] main_try_calls by metis

lemma main_extract_validated:
  assumes "main st fs magic zerox env lib t0 t1 p output pretty verbose = Inr r"
    and "Extract p \<in> set (calls r)"
  shows "\<exists>reason. validate_invoice_file st fs magic p = Inr (True, reason)"
  using assms
  by (auto simp: main_def Let_def
           split: if_splits sum.splits prod.splits option.splits try_end.splits)

lemma main_validation_failure:
  assumes "has_ai_provider st" and "\<exists>n. getsize fs p = Inr n"
    and "validate_invoice_file st fs magic p = Inr (False, reason)"
  shows "\<exists>r. main st fs magic zerox env lib t0 t1 p output pretty verbose = Inr r \<and>
             exit_code r = 1 \<and>
             stderr r = [cross_mark @ '' File validation failed: '' @ reason] \<and>
             written r = None \<and> calls r = [Validate p]"
  using assms by (auto simp: main_def Let_def)


lemma init_openai:
  "InvoiceProcessor_init openai_settings Map.empty
     = Inr (gpt_processor, [''OPENAI_API_KEY'' \<mapsto> ''sk-o''])"
  by (simp add: InvoiceProcessor_init_def openai_settings_def default_settings_def
      has_ai_provider_def truthy_def get_preferred_model_def setup_environment_def
      gpt_processor_def lower_def lower_char_def starts_with_def)

lemma validate_big_pdf:
  "validate_invoice_file openai_settings example_fs example_magic ''big.pdf''
     = Inr (False, ''File size (10.0MB) exceeds limit (10MB)'')"
  by (simp add: validate_invoice_file_def validate_file_exists_def validate_file_size_def
      example_fs_def example_sizes_def openai_settings_def default_settings_def
      format_mb_examples show_int_examples)

lemma validate_invoice_pdf:
  "validate_invoice_file openai_settings example_fs example_magic ''invoice.pdf''
     = Inr (True, ''Valid pdf file'')"
  by (simp add: validate_invoice_file_def validate_file_exists_def validate_file_size_def
      example_fs_def example_sizes_def openai_settings_def default_settings_def
      validate_file_format_def example_magic_def supported_mime_types_def)

text \<open>
  Claim C3, as stated, fails: \<open>process_invoice\<close> never calls the validator. A file
  one byte over the limit is rejected by the validator, yet processing it succeeds.
\<close>

theorem process_skips_validation_counterexample:
  "validate_invoice_file openai_settings example_fs example_magic ''big.pdf''
     = Inr (False, ''File size (10.0MB) exceeds limit (10MB)'') \<and>
   construct_and_process openai_settings text_backend Map.empty 100 102 ''big.pdf'' =
     Inr \<lparr> success = True,
           invoice_data = Some
             \<lparr> invoice_number = Some ''Extracted from AI response'', date = None,
               due_date = None, vendor = None, customer = None, totals = None,
               line_items = [], notes = Some ''Raw extracted content: INVOICE 42...'',
               payment_terms = None \<rparr>,
           error_message = None, processing_time = Some 2,
           confidence_score = Some (9 / 10) \<rparr>"
  by (simp add: validate_big_pdf construct_and_process_def init_openai
      process_invoice_sync_def process_invoice_def process_try_def text_backend_def
      ProcessingResult_new_def parse_extracted_data_def parse_try_def result_text_def
      InvoiceData_default_def)

text \<open>
  Claim C3, amended. Validation is done by \<open>main\<close>, before the processor is
  constructed: in every run the calls made are none, the validator alone, or the
  validator followed by one extraction, and an extraction happens only after the
  validator has accepted the path. For every path that exists (click's check passes)
  and fails validation, with a provider configured, \<open>main\<close> exits with code 1, prints
  "File validation failed: " followed by the validator's reason on the error stream,
  writes no file and makes no extraction.
\<close>

theorem main_validates_before_extraction:
  "(\<forall>r. main st fs magic zerox env lib t0 t1 p output pretty verbose = Inr r \<longrightarrow>
        calls r = [] \<or> calls r = [Validate p] \<or> calls r = [Validate p, Extract p]) \<and>
   (\<forall>r. main st fs magic zerox env lib t0 t1 p output pretty verbose = Inr r \<and>
        Extract p \<in> set (calls r) \<longrightarrow>
        (\<exists>reason. validate_invoice_file st fs magic p = Inr (True, reason))) \<and>
   (\<forall>reason. has_ai_provider st \<and> (\<exists>n. getsize fs p = Inr n) \<and>
        validate_invoice_file st fs magic p = Inr (False, reason) \<longrightarrow>
        (\<exists>r. main st fs magic zerox env lib t0 t1 p output pretty verbose = Inr r \<and>
             exit_code r = 1 \<and>
             stderr r = [cross_mark @ '' File validation failed: '' @ reason] \<and>
             written r = None \<and> calls r = [Validate p]))"
proof (intro conjI allI impI)
  fix r
  assume "main st fs magic zerox env lib t0 t1 p output pretty verbose = Inr r"
  then show "calls r = [] \<or> calls r = [Validate p] \<or> calls r = [Validate p, Extract p]"
    by (rule main_calls_cases)
next
  fix r
  assume "main st fs magic zerox env lib t0 t1 p output pretty verbose = Inr r \<and>
          Extract p \<in> set (calls r)"
  then show "\<exists>reason. validate_invoice_file st fs magic p = Inr (True, reason)"
    using main_extract_validated by blast
next
  fix reason
  assume "has_ai_provider st \<and> (\<exists>n. getsize fs p = Inr n) \<and>
          validate_invoice_file st fs magic p = Inr (False, reason)"
  then show "\<exists>r. main st fs magic zerox env lib t0 t1 p output pretty verbose = Inr r \<and>
                 exit_code r = 1 \<and>
                 stderr r = [cross_mark @ '' File validation failed: '' @ reason] \<and>
                 written r = None \<and> calls r = [Validate p]"
    using main_validation_failure [of st fs p magic reason] by blast
qed

lemma main_invoice_pdf:
  "main openai_settings example_fs example_magic text_backend Map.empty example_lib 100 102
        ''invoice.pdf'' None False False =
     Inr \<lparr> exit_code = 1, stdout = [],
           stderr = [cross_mark @ '' Unexpected error: '' @ quoted ''InvoiceData''
                     @ '' object has no attribute '' @ quoted ''model_dump''],
           written = None,
           calls = [Validate ''invoice.pdf'', Extract ''invoice.pdf''] \<rparr>"
proof -
  have provider: "has_ai_provider openai_settings"
    by (simp add: openai_settings_def default_settings_def has_ai_provider_def truthy_def)
  have there: "getsize example_fs ''invoice.pdf'' = Inr 10485760"
    by (simp add: example_fs_def example_sizes_def)
  have out: "with_suffix_json example_lib ''invoice.pdf'' = Inr ''invoice.json''"
    and dump: "\<And>d. model_dump example_lib d
                 = Inl (Exc ''AttributeError''
                          (quoted ''InvoiceData'' @ '' object has no attribute ''
                           @ quoted ''model_dump''))"
    by (simp_all add: example_lib_def)
  have run: "process_invoice_sync gpt_processor text_backend
               [''OPENAI_API_KEY'' \<mapsto> ''sk-o''] 100 102 ''invoice.pdf'' =
     \<lparr> success = True,
       invoice_data = Some
         \<lparr> invoice_number = Some ''Extracted from AI response'', date = None,
           due_date = None, vendor = None, customer = None, totals = None,
           line_items = [], notes = Some ''Raw extracted content: INVOICE 42...'',
           payment_terms = None \<rparr>,
       error_message = None, processing_time = Some 2, confidence_score = Some (9 / 10) \<rparr>"
    by (simp add: process_invoice_sync_def process_invoice_def process_try_def
        text_backend_def ProcessingResult_new_def parse_extracted_data_def parse_try_def
        result_text_def InvoiceData_default_def)
  have "main_try openai_settings text_backend Map.empty example_lib 100 102
          ''invoice.pdf'' ''invoice.json'' False False =
     \<lparr> try_stdout = [], try_written = None, try_calls = [Extract ''invoice.pdf''],
       try_end = Raised (Exc ''AttributeError''
                          (quoted ''InvoiceData'' @ '' object has no attribute ''
                           @ quoted ''model_dump'')) \<rparr>"
    by (simp add: main_try_def init_openai run dump)
  then show ?thesis
    by (simp add: main_def provider there validate_invoice_pdf out)
qed

theorem main_validates_before_extraction_witness:
  "has_ai_provider openai_settings \<and> getsize example_fs ''big.pdf'' = Inr 10485761 \<and>
   validate_invoice_file openai_settings example_fs example_magic ''big.pdf''
     = Inr (False, ''File size (10.0MB) exceeds limit (10MB)'') \<and>
   (\<exists>r. main openai_settings example_fs example_magic text_backend Map.empty example_lib
            100 102 ''big.pdf'' None False False = Inr r \<and>
        exit_code r = 1 \<and>
        stderr r = [cross_mark
                    @ '' File validation failed: File size (10.0MB) exceeds limit (10MB)''] \<and>
        written r = None \<and> calls r = [Validate ''big.pdf'']) \<and>
   (\<exists>r. main openai_settings example_fs example_magic text_backend Map.empty example_lib
            100 102 ''invoice.pdf'' None False False = Inr r \<and>
        calls r = [Validate ''invoice.pdf'', Extract ''invoice.pdf''] \<and>
        (\<exists>reason. validate_invoice_file openai_settings example_fs example_magic
                     ''invoice.pdf'' = Inr (True, reason)))"
proof -
  have provider: "has_ai_provider openai_settings"
    by (simp add: openai_settings_def default_settings_def has_ai_provider_def truthy_def)
  have there: "getsize example_fs ''big.pdf'' = Inr 10485761"
    by (simp add: example_fs_def example_sizes_def)
  note inst = main_validates_before_extraction
    [of openai_settings example_fs example_magic text_backend Map.empty example_lib
        100 102 _ None False False]
  have first: "\<exists>r. main openai_settings example_fs example_magic text_backend Map.empty
        example_lib 100 102 ''big.pdf'' None False False = Inr r \<and>
        exit_code r = 1 \<and>
        stderr r = [cross_mark
                    @ '' File validation failed: File size (10.0MB) exceeds limit (10MB)''] \<and>
        written r = None \<and> calls r = [Validate ''big.pdf'']"
    using inst [of "''big.pdf''"] provider there validate_big_pdf by simp
  obtain r' where r': "main openai_settings example_fs example_magic text_backend Map.empty
        example_lib 100 102 ''invoice.pdf'' None False False = Inr r'"
    "calls r' = [Validate ''invoice.pdf'', Extract ''invoice.pdf'']"
    using main_invoice_pdf by simp
  then have "Extract ''invoice.pdf'' \<in> set (calls r')" by simp
  then have "\<exists>reason. validate_invoice_file openai_settings example_fs example_magic
                     ''invoice.pdf'' = Inr (True, reason)"
    using inst [of "''invoice.pdf''"] r'(1) by blast
  with first r' provider there validate_big_pdf show ?thesis by blast
qed

lemma main_rejects_missing_path:
  "main openai_settings example_fs example_magic text_backend Map.empty example_lib 100 102
        [] None False False =
     Inr \<lparr> exit_code = 2, stdout = [],
           stderr = [''Error: Path '' @ quoted [] @ '' does not exist.''],
           written = None, calls = [] \<rparr>"
  by (simp add: main_def example_fs_def example_sizes_def example_lib_def)

end
